theory Spec2Isabelle
  imports Main "HOL-Library.AList"
begin

section \<open>Python values, dictionaries and exceptions\<close>

text \<open>
  The scraper passes around JSON-shaped Python values: the fixture records are dicts of
  strings and booleans, the web endpoints receive whatever \<open>request.get_json()\<close> decoded.
  A dict with string keys is an association list in insertion order (its keys distinct).
  JSON numbers are modelled by \<open>PInt\<close>; the code never computes with one.
\<close>

datatype pyval =
    PNone
  | PBool bool
  | PInt int
  | PStr string
  | PList "pyval list"
  | PDict "(string \<times> pyval) list"

type_synonym pydict = "(string \<times> pyval) list"

text \<open>Python's truth test, as used by \<open>if not x\<close>, \<open>if result\<close> and \<open>all([...])\<close>.\<close>

fun truthy :: "pyval \<Rightarrow> bool" where
  "truthy PNone = False"
| "truthy (PBool b) = b"
| "truthy (PInt i) = (i \<noteq> 0)"
| "truthy (PStr s) = (s \<noteq> [])"
| "truthy (PList xs) = (xs \<noteq> [])"
| "truthy (PDict kvs) = (kvs \<noteq> [])"

text \<open>\<open>d.get(k)\<close> and \<open>d.get(k, default)\<close>.\<close>

definition dict_get :: "pydict \<Rightarrow> string \<Rightarrow> pyval" where
  "dict_get d k = (case map_of d k of None \<Rightarrow> PNone | Some v \<Rightarrow> v)"

definition dict_get_default :: "pydict \<Rightarrow> string \<Rightarrow> pyval \<Rightarrow> pyval" where
  "dict_get_default d k dflt = (case map_of d k of None \<Rightarrow> dflt | Some v \<Rightarrow> v)"

text \<open>Lists and dicts are unhashable: using one as a dict key raises \<open>TypeError\<close>.\<close>

fun hashable :: "pyval \<Rightarrow> bool" where
  "hashable (PList xs) = False"
| "hashable (PDict kvs) = False"
| "hashable v = True"

fun type_name :: "pyval \<Rightarrow> string" where
  "type_name PNone = ''NoneType''"
| "type_name (PBool b) = ''bool''"
| "type_name (PInt i) = ''int''"
| "type_name (PStr s) = ''str''"
| "type_name (PList xs) = ''list''"
| "type_name (PDict kvs) = ''dict''"

text \<open>Exceptions caught by \<open>except Exception as e\<close>, each with the text \<open>str(e)\<close> gives.\<close>

datatype exn =
    TypeError string
  | AttributeError string
  | ValueError string
  | OSError string
  | BadRequest string

fun exn_str :: "exn \<Rightarrow> string" where
  "exn_str (TypeError m) = m"
| "exn_str (AttributeError m) = m"
| "exn_str (ValueError m) = m"
| "exn_str (OSError m) = m"
| "exn_str (BadRequest m) = m"

text \<open>\<open>try: body  except Exception as e: handler\<close>, the body either raising or returning.\<close>

definition try_except :: "exn + 'a \<Rightarrow> (exn \<Rightarrow> 'a) \<Rightarrow> 'a" where
  "try_except body handler = (case body of Inl e \<Rightarrow> handler e | Inr r \<Rightarrow> r)"

section \<open>The scraper: \<open>ECourtsScraper\<close>\<close>

subsection \<open>The demo dataset\<close>

definition demo_cases :: "(string \<times> pydict) list" where
  "demo_cases =
   [(''DLCT01-123456-2023'',
     [(''cnr'', PStr ''DLCT01-123456-2023''),
      (''case_number'', PStr ''12345/2023''),
      (''case_title'', PStr ''John Doe vs. Jane Smith''),
      (''court_name'', PStr ''Delhi High Court''),
      (''case_type'', PStr ''Civil''),
      (''filing_date'', PStr ''2023-01-15''),
      (''status'', PStr ''Pending''),
      (''next_hearing'', PStr ''2025-10-20''),
      (''serial_number'', PStr ''1''),
      (''is_listed_today'', PBool True),
      (''is_listed_tomorrow'', PBool False)]),
    (''MHMC02-654321-2022'',
     [(''cnr'', PStr ''MHMC02-654321-2022''),
      (''case_number'', PStr ''65432/2022''),
      (''case_title'', PStr ''ABC Pvt Ltd vs. XYZ Traders''),
      (''court_name'', PStr ''Mumbai City Civil Court''),
      (''case_type'', PStr ''Commercial''),
      (''filing_date'', PStr ''2022-06-10''),
      (''status'', PStr ''Pending''),
      (''next_hearing'', PStr ''2025-10-21''),
      (''serial_number'', PStr ''7''),
      (''is_listed_today'', PBool False),
      (''is_listed_tomorrow'', PBool True)]),
    (''KLER03-111222-2021'',
     [(''cnr'', PStr ''KLER03-111222-2021''),
      (''case_number'', PStr ''11122/2021''),
      (''case_title'', PStr ''State vs. Raman Nair''),
      (''court_name'', PStr ''Ernakulam District Court''),
      (''case_type'', PStr ''Criminal''),
      (''filing_date'', PStr ''2021-09-05''),
      (''status'', PStr ''Listed''),
      (''next_hearing'', PStr ''2025-10-15''),
      (''serial_number'', PStr ''15''),
      (''is_listed_today'', PBool True),
      (''is_listed_tomorrow'', PBool False)]),
    (''TNCH04-777888-2020'',
     [(''cnr'', PStr ''TNCH04-777888-2020''),
      (''case_number'', PStr ''77788/2020''),
      (''case_title'', PStr ''Mohan vs. Housing Board''),
      (''court_name'', PStr ''Chennai City Civil Court''),
      (''case_type'', PStr ''Civil''),
      (''filing_date'', PStr ''2020-11-20''),
      (''status'', PStr ''Adjourned''),
      (''next_hearing'', PStr ''2025-10-22''),
      (''serial_number'', PStr ''23''),
      (''is_listed_today'', PBool False),
      (''is_listed_tomorrow'', PBool True)]),
    (''RJJP05-333444-2019'',
     [(''cnr'', PStr ''RJJP05-333444-2019''),
      (''case_number'', PStr ''33344/2019''),
      (''case_title'', PStr ''Pooja Sharma vs. RTO Jaipur''),
      (''court_name'', PStr ''Jaipur District Court''),
      (''case_type'', PStr ''Motor Accident Claims''),
      (''filing_date'', PStr ''2019-03-18''),
      (''status'', PStr ''For Hearing''),
      (''next_hearing'', PStr ''2025-10-16''),
      (''serial_number'', PStr ''3''),
      (''is_listed_today'', PBool True),
      (''is_listed_tomorrow'', PBool False)])]"

subsection \<open>\<open>search_case_by_cnr\<close>\<close>

text \<open>
  The body of the \<open>try\<close>. The parameter is annotated \<open>str\<close>, but the web endpoint
  passes whatever JSON value stands under \<open>"cnr"\<close>; the membership test
  \<open>cnr in self.demo_cases\<close> hashes it, which raises \<open>TypeError\<close> for a list or a dict.
  A hashable value that is not a string equals no key. The log line has no effect on
  the result and is left out.
\<close>

definition search_case_by_cnr_try :: "pyval \<Rightarrow> exn + pydict" where
  "search_case_by_cnr_try cnr =
     (if \<not> hashable cnr
      then Inl (TypeError (''unhashable type: '' @ [CHR 0x27] @ type_name cnr @ [CHR 0x27]))
      else (case cnr of
              PStr s \<Rightarrow> (case map_of demo_cases s of
                           Some r \<Rightarrow> Inr r
                         | None \<Rightarrow> Inr [])
            | _ \<Rightarrow> Inr []))"

text \<open>The handler: \<open>except Exception as e: logger.error(...); return {}\<close>.\<close>

definition search_case_by_cnr_except :: "exn \<Rightarrow> pydict" where
  "search_case_by_cnr_except e = []"

definition search_case_by_cnr :: "pyval \<Rightarrow> pydict" where
  "search_case_by_cnr cnr = try_except (search_case_by_cnr_try cnr) search_case_by_cnr_except"

subsection \<open>\<open>search_case_by_details\<close>\<close>

text \<open>
  The placeholder record. \<open>py_str\<close> stands for Python's built-in conversion of a value
  to text (\<open>str(x)\<close>, which is what an f-string and the csv writer apply); it is not
  code of this repository and is a parameter of every function that formats a value.
  Nothing in the body raises, so the handler \<open>return {}\<close> is never reached.
\<close>

definition search_case_by_details_try ::
  "(pyval \<Rightarrow> string) \<Rightarrow> pyval \<Rightarrow> pyval \<Rightarrow> pyval \<Rightarrow> exn + pydict" where
  "search_case_by_details_try py_str case_type case_number year =
     Inr [(''case_type'', case_type),
          (''case_number'', case_number),
          (''year'', year),
          (''case_title'', PStr (''Sample '' @ py_str case_type @ '' Case'')),
          (''court_name'', PStr ''District Court''),
          (''filing_date'', PStr ''2023-01-15''),
          (''status'', PStr ''Pending''),
          (''next_hearing'', PStr ''2023-10-21''),
          (''serial_number'', PStr ''2''),
          (''is_listed_today'', PBool False),
          (''is_listed_tomorrow'', PBool True)]"

definition search_case_by_details_except :: "exn \<Rightarrow> pydict" where
  "search_case_by_details_except e = []"

definition search_case_by_details ::
  "(pyval \<Rightarrow> string) \<Rightarrow> pyval \<Rightarrow> pyval \<Rightarrow> pyval \<Rightarrow> pydict" where
  "search_case_by_details py_str case_type case_number year =
     try_except (search_case_by_details_try py_str case_type case_number year)
       search_case_by_details_except"

subsection \<open>\<open>get_cause_list\<close>\<close>

definition cause_list_placeholder :: "pydict list" where
  "cause_list_placeholder =
   [[(''serial_number'', PStr ''1''),
     (''case_number'', PStr ''12345/2023''),
     (''case_title'', PStr ''Sample Case 1''),
     (''petitioner'', PStr ''John Doe''),
     (''respondent'', PStr ''Jane Smith''),
     (''advocate'', PStr ''Advocate ABC''),
     (''court_room'', PStr ''Room 1''),
     (''time'', PStr ''10:00 AM'')],
    [(''serial_number'', PStr ''2''),
     (''case_number'', PStr ''67890/2023''),
     (''case_title'', PStr ''Sample Case 2''),
     (''petitioner'', PStr ''Alice Johnson''),
     (''respondent'', PStr ''Bob Wilson''),
     (''advocate'', PStr ''Advocate XYZ''),
     (''court_room'', PStr ''Room 2''),
     (''time'', PStr ''11:00 AM'')],
    [(''serial_number'', PStr ''3''),
     (''case_number'', PStr ''22222/2022''),
     (''case_title'', PStr ''Ravi Kumar vs. State''),
     (''petitioner'', PStr ''Ravi Kumar''),
     (''respondent'', PStr ''State''),
     (''advocate'', PStr ''Adv. Mehta''),
     (''court_room'', PStr ''Room 3''),
     (''time'', PStr ''11:30 AM'')],
    [(''serial_number'', PStr ''4''),
     (''case_number'', PStr ''33333/2021''),
     (''case_title'', PStr ''Sita Devi vs. Nagar Nigam''),
     (''petitioner'', PStr ''Sita Devi''),
     (''respondent'', PStr ''Nagar Nigam''),
     (''advocate'', PStr ''Adv. Rao''),
     (''court_room'', PStr ''Room 4''),
     (''time'', PStr ''12:00 PM'')],
    [(''serial_number'', PStr ''5''),
     (''case_number'', PStr ''44444/2020''),
     (''case_title'', PStr ''Om Prakash vs. Insurance Co.''),
     (''petitioner'', PStr ''Om Prakash''),
     (''respondent'', PStr ''National Insurance''),
     (''advocate'', PStr ''Adv. Khan''),
     (''court_room'', PStr ''Room 5''),
     (''time'', PStr ''12:30 PM'')]]"

text \<open>
  The body of the \<open>try\<close>: the date defaults to today's (\<open>now\<close>, already formatted) when
  it is falsy, and feeds the log line only; the list returned is the literal. Nothing
  in the body raises for a JSON-shaped argument.
\<close>

definition get_cause_list_try :: "string \<Rightarrow> pyval \<Rightarrow> pyval \<Rightarrow> exn + pydict list" where
  "get_cause_list_try now court_code date =
     (let date = (if \<not> truthy date then PStr now else date)
      in Inr cause_list_placeholder)"

text \<open>The handler: \<open>except Exception as e: logger.error(...); return []\<close>.\<close>

definition get_cause_list_except :: "exn \<Rightarrow> pydict list" where
  "get_cause_list_except e = []"

definition get_cause_list :: "string \<Rightarrow> pyval \<Rightarrow> pyval \<Rightarrow> pydict list" where
  "get_cause_list now court_code date =
     try_except (get_cause_list_try now court_code date) get_cause_list_except"

section \<open>The file system the scraper writes to\<close>

text \<open>
  The state \<open>open(path, 'w')\<close>, the writes to the open file and \<open>os.makedirs\<close> act
  on: the directories created so far, the files with the text they hold, the paths
  the operating system refuses to open for writing (the parent directory is missing,
  the permission is denied, the name is too long, ...), and the number of characters
  it still accepts before a write fails for lack of space. Whether a path can be opened
  is the operating system's decision and is not derived from the path.
\<close>

datatype filedata = Text string

record filesystem =
  dirs :: "string list"
  files :: "(string \<times> filedata) list"
  unwritable :: "string list"
  space :: nat

definition rstrip_slash :: "string \<Rightarrow> string" where
  "rstrip_slash p = rev (dropWhile (\<lambda>c. c = CHR ''/'') (rev p))"

text \<open>
  \<open>open(path, 'w')\<close>: it raises \<open>OSError\<close> for the empty path and for a path the
  operating system refuses; otherwise the file exists and is empty, whatever it held
  before. It never creates a directory.
\<close>

definition open_w :: "filesystem \<Rightarrow> string \<Rightarrow> exn + filesystem" where
  "open_w fs path =
     (if path = [] \<or> path \<in> set (unwritable fs) then
        Inl (OSError ''cannot open for writing'')
      else Inr (fs\<lparr>files := AList.update path (Text []) (files fs)\<rparr>))"

text \<open>
  What reaches the file of the text \<open>t\<close> written to it between \<open>open\<close> and the end of
  the \<open>with\<close> block: all of it when there is room; otherwise the part that fits, and
  \<open>OSError\<close> is raised.
\<close>

definition write_text :: "filesystem \<Rightarrow> string \<Rightarrow> string \<Rightarrow> exn option \<times> filesystem" where
  "write_text fs path t =
     (if length t \<le> space fs then
        (None, fs\<lparr>files := AList.update path (Text t) (files fs),
                   space := space fs - length t\<rparr>)
      else
        (Some (OSError ''No space left on device''),
         fs\<lparr>files := AList.update path (Text (take (space fs) t)) (files fs),
             space := 0\<rparr>))"

text \<open>
  \<open>os.makedirs(d, exist_ok=True)\<close>: \<open>d\<close> and every missing ancestor of it come to
  exist; it raises when \<open>d\<close> is empty or one of them is a file.
\<close>

definition ancestors :: "string \<Rightarrow> string list" where
  "ancestors d =
     remdups (filter (\<lambda>p. p \<noteq> [])
       (map (\<lambda>i. rstrip_slash (take i d))
          (filter (\<lambda>i. i = length d \<or> d ! i = CHR ''/'') [1..<Suc (length d)])))"

definition makedirs :: "filesystem \<Rightarrow> string \<Rightarrow> exn + filesystem" where
  "makedirs fs d =
     (if d = [] then Inl (OSError ''No such file or directory'')
      else if list_ex (\<lambda>p. p \<in> fst ` set (files fs)) (ancestors d) then
        Inl (OSError ''File exists'')
      else Inr (fs\<lparr>dirs := dirs fs @ filter (\<lambda>p. p \<notin> set (dirs fs)) (ancestors d)\<rparr>))"

text \<open>\<open>os.path.join(a, b)\<close> of \<open>posixpath\<close>, for two components.\<close>

definition path_join :: "string \<Rightarrow> string \<Rightarrow> string" where
  "path_join a b =
     (if b \<noteq> [] \<and> hd b = CHR ''/'' then b
      else if a = [] \<or> last a = CHR ''/'' then a @ b
      else a @ ''/'' @ b)"

subsection \<open>\<open>download_case_pdf\<close>\<close>

text \<open>The character class \<open>[A-Za-z0-9_-]\<close>.\<close>

definition safe_char :: "char \<Rightarrow> bool" where
  "safe_char c =
     (let n = (of_char c :: nat)
      in (65 \<le> n \<and> n \<le> 90) \<or> (97 \<le> n \<and> n \<le> 122) \<or> (48 \<le> n \<and> n \<le> 57)
         \<or> c = CHR ''_'' \<or> c = CHR ''-'')"

text \<open>
  \<open>re.sub(r"[^A-Za-z0-9_-]+", "_", s)\<close>: every maximal run of characters outside the
  class becomes one underscore.
\<close>

function re_sub_unsafe :: "string \<Rightarrow> string" where
  "re_sub_unsafe [] = []"
| "re_sub_unsafe (c # cs) =
     (if safe_char c then c # re_sub_unsafe cs
      else CHR ''_'' # re_sub_unsafe (dropWhile (\<lambda>c. \<not> safe_char c) cs))"
  by pat_completeness auto
termination
  by (relation "measure length") (auto simp: less_Suc_eq_le length_dropWhile_le)

text \<open>
  The body of the \<open>try\<close>, with the file system as it stands when the body returns or
  raises; the handler returns \<open>""\<close>.
\<close>

definition download_case_pdf_try ::
  "filesystem \<Rightarrow> string \<Rightarrow> string \<Rightarrow> (exn + string) \<times> filesystem" where
  "download_case_pdf_try fs case_id output_dir =
     (case makedirs fs output_dir of
        Inl e \<Rightarrow> (Inl e, fs)
      | Inr fs1 \<Rightarrow>
          (let safe_case_id = re_sub_unsafe case_id;
               pdf_path = path_join output_dir (''case_'' @ safe_case_id @ ''.pdf'')
           in case open_w fs1 pdf_path of
                Inl e \<Rightarrow> (Inl e, fs1)
              | Inr fs2 \<Rightarrow>
                  (case write_text fs2 pdf_path ''This is a placeholder PDF content'' of
                     (Some e, fs3) \<Rightarrow> (Inl e, fs3)
                   | (None, fs3) \<Rightarrow> (Inr pdf_path, fs3))))"

definition download_case_pdf :: "filesystem \<Rightarrow> string \<Rightarrow> string \<Rightarrow> string \<times> filesystem" where
  "download_case_pdf fs case_id output_dir =
     (case download_case_pdf_try fs case_id output_dir of
        (r, fs') \<Rightarrow> (try_except r (\<lambda>e. []), fs'))"

subsection \<open>\<open>save_results\<close>\<close>


subsection \<open>The csv writer behind \<open>save_cause_list_csv\<close>\<close>

text \<open>
  \<open>csv.DictWriter\<close> with its defaults (the \<open>excel\<close> dialect): fields separated by a
  comma, records ended by \<open>\r\n\<close>, a field quoted only when it holds a comma, a double
  quote, \<open>\r\<close> or \<open>\n\<close>, a double quote inside a quoted field doubled, and a record
  that would otherwise be empty (one empty field) written as a pair of quotes.
\<close>

abbreviation CR :: char where "CR \<equiv> CHR 0x0D"
abbreviation LF :: char where "LF \<equiv> CHR 0x0A"
abbreviation DQ :: char where "DQ \<equiv> CHR 0x22"
abbreviation COMMA :: char where "COMMA \<equiv> CHR '',''"

definition csv_special :: "char \<Rightarrow> bool" where
  "csv_special c = (c = COMMA \<or> c = DQ \<or> c = CR \<or> c = LF)"

definition csv_escape :: "string \<Rightarrow> string" where
  "csv_escape s = concat (map (\<lambda>c. if c = DQ then [DQ, DQ] else [c]) s)"

definition csv_write_field :: "string \<Rightarrow> string" where
  "csv_write_field s = (if list_ex csv_special s then [DQ] @ csv_escape s @ [DQ] else s)"

fun csv_join :: "string list \<Rightarrow> string" where
  "csv_join [] = []"
| "csv_join [f] = f"
| "csv_join (f # g # fs) = f @ [COMMA] @ csv_join (g # fs)"

definition csv_writerow :: "string list \<Rightarrow> string" where
  "csv_writerow row =
     (if row = [[]] then [DQ, DQ] else csv_join (map csv_write_field row)) @ [CR, LF]"

text \<open>What the writer makes of a field value: \<open>None\<close> is the empty text, a string is
  itself, anything else goes through \<open>str\<close>.\<close>

definition csv_field :: "(pyval \<Rightarrow> string) \<Rightarrow> pyval \<Rightarrow> string" where
  "csv_field py_str v = (case v of PNone \<Rightarrow> [] | PStr s \<Rightarrow> s | _ \<Rightarrow> py_str v)"

text \<open>
  \<open>DictWriter._dict_to_list\<close>: a row with a key outside \<open>fieldnames\<close> raises
  \<open>ValueError\<close> (\<open>extrasaction='raise'\<close>); a missing key gives the empty text
  (\<open>restval=''\<close>).
\<close>

definition dict_to_list :: "string list \<Rightarrow> pydict \<Rightarrow> exn + pyval list" where
  "dict_to_list fieldnames rowdict =
     (if list_ex (\<lambda>k. k \<notin> set fieldnames) (map fst rowdict)
      then Inl (ValueError ''dict contains fields not in fieldnames'')
      else Inr (map (\<lambda>k. dict_get_default rowdict k (PStr [])) fieldnames))"

text \<open>
  \<open>writerows\<close>: the rows are written one after the other; the text written before a
  row raises stays in the file.
\<close>

fun writerows :: "(pyval \<Rightarrow> string) \<Rightarrow> string list \<Rightarrow> pydict list \<Rightarrow> string \<times> exn option" where
  "writerows py_str fieldnames [] = ([], None)"
| "writerows py_str fieldnames (r # rs) =
     (case dict_to_list fieldnames r of
        Inl e \<Rightarrow> ([], Some e)
      | Inr vs \<Rightarrow>
          (case writerows py_str fieldnames rs of
             (t, e) \<Rightarrow> (csv_writerow (map (csv_field py_str) vs) @ t, e)))"

subsection \<open>\<open>save_cause_list_csv\<close>\<close>

text \<open>
  The file name defaults as in \<open>save_results\<close>; an empty list is not saved. The file
  is opened, the header and the rows are written, and whatever raises on the way
  (the \<open>open\<close>, a row with a field outside the header, the write) ends in the
  handler's \<open>return ""\<close>, the text written so far staying in the file.
\<close>

definition save_cause_list_csv ::
  "(pyval \<Rightarrow> string) \<Rightarrow> filesystem \<Rightarrow> string \<Rightarrow> pydict list \<Rightarrow> string option
     \<Rightarrow> string \<times> filesystem" where
  "save_cause_list_csv py_str fs now cause_list filename =
     (let filename = (case filename of
                        None \<Rightarrow> ''cause_list_'' @ now @ ''.csv''
                      | Some f \<Rightarrow> if f = [] then ''cause_list_'' @ now @ ''.csv'' else f)
      in case cause_list of
           [] \<Rightarrow> ([], fs)
         | first # _ \<Rightarrow>
             (case open_w fs filename of
                Inl e \<Rightarrow> ([], fs)
              | Inr fs1 \<Rightarrow>
                  (let fieldnames = map fst first;
                       header = csv_writerow fieldnames
                   in case writerows py_str fieldnames cause_list of
                        (t, e) \<Rightarrow>
                          (case write_text fs1 filename (header @ t) of
                             (we, fs2) \<Rightarrow>
                               if e = None \<and> we = None then (filename, fs2) else ([], fs2)))))"

subsection \<open>Reading a csv file back\<close>





section \<open>The web interface\<close>

text \<open>
  A response is the dict given to \<open>jsonify\<close> with the HTTP status. The request is what
  \<open>request.get_json()\<close> does: it raises (a body that is not JSON) or returns the decoded
  value.
\<close>

type_synonym response = "pydict \<times> nat"

definition error_response :: "string \<Rightarrow> nat \<Rightarrow> response" where
  "error_response msg code = ([(''error'', PStr msg)], code)"

text \<open>\<open>data.get\<close> exists only when \<open>data\<close> is a dict.\<close>

definition no_get :: "pyval \<Rightarrow> exn" where
  "no_get v = AttributeError ([CHR 0x27] @ type_name v @ [CHR 0x27]
                @ '' object has no attribute '' @ [CHR 0x27] @ ''get'' @ [CHR 0x27])"

definition web_search_case_try :: "(pyval \<Rightarrow> string) \<Rightarrow> exn + pyval \<Rightarrow> exn + response" where
  "web_search_case_try py_str body =
     (case body of
        Inl e \<Rightarrow> Inl e
      | Inr (PDict d) \<Rightarrow>
          (let search_type = dict_get d ''search_type'' in
           if search_type = PStr ''cnr'' then
             (let cnr = dict_get d ''cnr'' in
              if \<not> truthy cnr then Inr (error_response ''CNR is required'' 400)
              else
                (let result = search_case_by_cnr cnr in
                 if truthy (PDict result)
                 then Inr ([(''success'', PBool True), (''data'', PDict result)], 200)
                 else Inr ([(''success'', PBool False), (''message'', PStr ''Case not found'')], 200)))
           else if search_type = PStr ''details'' then
             (let case_type = dict_get d ''case_type'';
                  case_number = dict_get d ''case_number'';
                  year = dict_get d ''year'' in
              if \<not> (truthy case_type \<and> truthy case_number \<and> truthy year)
              then Inr (error_response ''All case details are required'' 400)
              else
                (let result = search_case_by_details py_str case_type case_number year in
                 if truthy (PDict result)
                 then Inr ([(''success'', PBool True), (''data'', PDict result)], 200)
                 else Inr ([(''success'', PBool False), (''message'', PStr ''Case not found'')], 200)))
           else Inr (error_response ''Invalid search type'' 400))
      | Inr v \<Rightarrow> Inl (no_get v))"

definition web_search_case :: "(pyval \<Rightarrow> string) \<Rightarrow> exn + pyval \<Rightarrow> response" where
  "web_search_case py_str body =
     try_except (web_search_case_try py_str body) (\<lambda>e. error_response (exn_str e) 500)"

text \<open>
  \<open>/causelist\<close>. \<open>today\<close> and \<open>stamp\<close> are the clock as \<open>get_cause_list\<close> and
  \<open>save_cause_list_csv\<close> format it; the csv file is written as a side effect.
\<close>

definition web_get_cause_list_try ::
  "(pyval \<Rightarrow> string) \<Rightarrow> filesystem \<Rightarrow> string \<Rightarrow> string \<Rightarrow> exn + pyval
     \<Rightarrow> (exn + response) \<times> filesystem" where
  "web_get_cause_list_try py_str fs today stamp body =
     (case body of
        Inl e \<Rightarrow> (Inl e, fs)
      | Inr (PDict d) \<Rightarrow>
          (let court_code = dict_get_default d ''court_code'' (PStr ''01'');
               date = dict_get d ''date'';
               cause_list = get_cause_list today court_code date in
           if cause_list \<noteq> [] then
             (case save_cause_list_csv py_str fs stamp cause_list None of
                (filename, fs') \<Rightarrow>
                  (Inr ([(''success'', PBool True),
                         (''data'', PList (map PDict cause_list)),
                         (''filename'', PStr filename)], 200), fs'))
           else (Inr ([(''success'', PBool False),
                       (''message'', PStr ''No cause list found'')], 200), fs))
      | Inr v \<Rightarrow> (Inl (no_get v), fs))"

definition web_get_cause_list ::
  "(pyval \<Rightarrow> string) \<Rightarrow> filesystem \<Rightarrow> string \<Rightarrow> string \<Rightarrow> exn + pyval
     \<Rightarrow> response \<times> filesystem" where
  "web_get_cause_list py_str fs today stamp body =
     (case web_get_cause_list_try py_str fs today stamp body of
        (r, fs') \<Rightarrow> (try_except r (\<lambda>e. error_response (exn_str e) 500), fs'))"

section \<open>Verified properties\<close>

subsection \<open>Lookups in the demo dataset\<close>

lemma demo_cases_keys:
  "map fst demo_cases =
     [''DLCT01-123456-2023'', ''MHMC02-654321-2022'', ''KLER03-111222-2021'',
      ''TNCH04-777888-2020'', ''RJJP05-333444-2019'']"
  by (simp add: demo_cases_def)

lemma search_case_by_cnr_str:
  "search_case_by_cnr (PStr s) = (case map_of demo_cases s of Some r \<Rightarrow> r | None \<Rightarrow> [])"
  by (simp add: search_case_by_cnr_def search_case_by_cnr_try_def try_except_def
      split: option.splits)

lemma search_case_by_cnr_unhashable:
  "search_case_by_cnr (PList xs) = []"
  by (simp add: search_case_by_cnr_def search_case_by_cnr_try_def try_except_def
      search_case_by_cnr_except_def)

text \<open>
  Claim C1, as stated, fails: the flags are literals of the dataset and are not computed
  from the next-hearing date. Three fixture records carry \<open>is_listed_today = True\<close> with
  three different next-hearing dates, so no as-of date makes "listed today iff the
  next hearing is the as-of date" true of every record.
\<close>

theorem listed_today_not_date_derived:
  "\<not> (\<exists>as_of. \<forall>r \<in> snd ` set demo_cases.
         (dict_get r ''is_listed_today'' = PBool True)
           = (dict_get r ''next_hearing'' = PStr as_of))"
  by (simp add: demo_cases_def dict_get_def)

text \<open>
  Claim C1, amended: in every record of the fixture dataset and in every record
  \<open>search_case_by_details\<close> returns, \<open>is_listed_today\<close> and \<open>is_listed_tomorrow\<close> are
  stored booleans of which exactly one is true; in particular they are never both true.
\<close>

theorem listed_flags_exclusive:
  "r \<in> snd ` set demo_cases \<or> r = search_case_by_details py_str case_type case_number year \<Longrightarrow>
   \<exists>b. dict_get r ''is_listed_today'' = PBool b \<and> dict_get r ''is_listed_tomorrow'' = PBool (\<not> b)"
  by (auto simp add: demo_cases_def dict_get_def search_case_by_details_def
      search_case_by_details_try_def try_except_def)

theorem listed_flags_exclusive_witness:
  "\<exists>b. dict_get (search_case_by_details (\<lambda>v. []) (PStr ''Civil'') (PStr ''12345'') (PStr ''2023''))
          ''is_listed_today'' = PBool b
     \<and> dict_get (search_case_by_details (\<lambda>v. []) (PStr ''Civil'') (PStr ''12345'') (PStr ''2023''))
          ''is_listed_tomorrow'' = PBool (\<not> b)"
  using listed_flags_exclusive
    [of "search_case_by_details (\<lambda>v. []) (PStr ''Civil'') (PStr ''12345'') (PStr ''2023'')"
        "\<lambda>v. []" "PStr ''Civil''" "PStr ''12345''" "PStr ''2023''"]
  by simp

text \<open>
  Claim C2, as stated, fails: for an unknown CNR the function returns the empty dict,
  the very value its exception handler returns (here for an unhashable argument), so
  the outcome is not a distinguished one.
\<close>

theorem unknown_cnr_not_distinguished:
  "search_case_by_cnr (PStr ''TEST123456789'') = []
   \<and> search_case_by_cnr (PStr ''TEST123456789'') = search_case_by_cnr (PList [PStr ''TEST123456789''])
   \<and> search_case_by_cnr_try (PList [PStr ''TEST123456789''])
       = Inl (TypeError (''unhashable type: '' @ [CHR 0x27] @ ''list'' @ [CHR 0x27]))"
  by (simp add: search_case_by_cnr_def search_case_by_cnr_try_def try_except_def
      search_case_by_cnr_except_def demo_cases_def)

text \<open>
  Claim C2, amended: for every CNR string that is not a key of the fixture dataset,
  \<open>search_case_by_cnr\<close> raises nothing and returns the empty dict, which is falsy.
\<close>

theorem unknown_cnr_empty_dict:
  "s \<notin> set (map fst demo_cases) \<Longrightarrow>
   search_case_by_cnr_try (PStr s) = Inr []
   \<and> search_case_by_cnr (PStr s) = []
   \<and> \<not> truthy (PDict (search_case_by_cnr (PStr s)))"
  by (simp add: search_case_by_cnr_def search_case_by_cnr_try_def try_except_def
      map_of_eq_None_iff[THEN iffD2] split: option.splits)

theorem unknown_cnr_empty_dict_witness:
  "''TEST123'' \<notin> set (map fst demo_cases)
   \<and> search_case_by_cnr_try (PStr ''TEST123'') = Inr []
   \<and> search_case_by_cnr (PStr ''TEST123'') = []
   \<and> \<not> truthy (PDict (search_case_by_cnr (PStr ''TEST123'')))"
  using unknown_cnr_empty_dict [of "''TEST123''"] by (simp add: demo_cases_keys)

text \<open>
  Claim C3: for every CNR string that is a key of the fixture dataset,
  \<open>search_case_by_cnr\<close> returns a record whose \<open>cnr\<close> field is the input.
\<close>

theorem known_cnr_returns_own_record:
  "s \<in> set (map fst demo_cases) \<Longrightarrow>
   map_of (search_case_by_cnr (PStr s)) ''cnr'' = Some (PStr s)"
  unfolding search_case_by_cnr_str
  by (auto simp add: demo_cases_def)

theorem known_cnr_returns_own_record_witness:
  "''KLER03-111222-2021'' \<in> set (map fst demo_cases)
   \<and> map_of (search_case_by_cnr (PStr ''KLER03-111222-2021'')) ''cnr''
       = Some (PStr ''KLER03-111222-2021'')"
  using known_cnr_returns_own_record [of "''KLER03-111222-2021''"]
  by (simp add: demo_cases_keys)

text \<open>
  Claim C4: the record found for \<open>"DLCT01-123456-2023"\<close> has court name
  \<open>"Delhi High Court"\<close>, status \<open>"Pending"\<close> and serial number \<open>"1"\<close>.
\<close>

theorem delhi_example_record:
  "map_of (search_case_by_cnr (PStr ''DLCT01-123456-2023'')) ''court_name''
     = Some (PStr ''Delhi High Court'')
   \<and> map_of (search_case_by_cnr (PStr ''DLCT01-123456-2023'')) ''status''
     = Some (PStr ''Pending'')
   \<and> map_of (search_case_by_cnr (PStr ''DLCT01-123456-2023'')) ''serial_number''
     = Some (PStr ''1'')"
  unfolding search_case_by_cnr_str by (simp add: demo_cases_def)

subsection \<open>Exceptions inside the scraper\<close>

text \<open>
  Claim C5, as stated, fails: the membership test raises \<open>TypeError\<close> for a list, and
  \<open>search_case_by_cnr\<close> returns the empty dict, exactly as it does when nothing matched.
\<close>

theorem exception_swallowed_into_empty_dict:
  "search_case_by_cnr_try (PList [PStr ''DLCT01-123456-2023''])
     = Inl (TypeError (''unhashable type: '' @ [CHR 0x27] @ ''list'' @ [CHR 0x27]))
   \<and> search_case_by_cnr (PList [PStr ''DLCT01-123456-2023'']) = []
   \<and> search_case_by_cnr (PStr ''no such case'') = []"
  by (simp add: search_case_by_cnr_def search_case_by_cnr_try_def try_except_def
      search_case_by_cnr_except_def demo_cases_def)

text \<open>
  Claim C5, amended: an exception raised inside \<open>search_case_by_cnr\<close> is caught and the
  function returns the empty dict; the handler of \<open>get_cause_list\<close> likewise returns the
  empty list for whatever exception reaches it, and the body of \<open>get_cause_list\<close>
  itself raises none. No exception surfaces to the caller of either function.
\<close>

theorem exceptions_become_empty_results:
  "(search_case_by_cnr_try cnr = Inl e \<longrightarrow> search_case_by_cnr cnr = [])
   \<and> search_case_by_cnr_except e = []
   \<and> get_cause_list_except e = []
   \<and> try_except (Inl e) get_cause_list_except = []
   \<and> get_cause_list_try now court_code date = Inr cause_list_placeholder"
  by (simp add: search_case_by_cnr_def try_except_def search_case_by_cnr_except_def
      get_cause_list_except_def get_cause_list_try_def)

theorem exceptions_become_empty_results_witness:
  "search_case_by_cnr_try (PList [PInt 1]) = Inl (TypeError (''unhashable type: '' @ [CHR 0x27] @ ''list'' @ [CHR 0x27]))
   \<and> search_case_by_cnr (PList [PInt 1]) = []
   \<and> get_cause_list_except (TypeError (''unhashable type: '' @ [CHR 0x27] @ ''list'' @ [CHR 0x27])) = []"
  using exceptions_become_empty_results
    [of "PList [PInt 1]" "TypeError (''unhashable type: '' @ [CHR 0x27] @ ''list'' @ [CHR 0x27])" "''04/11/2026''" "PStr ''01''" PNone]
  by (simp add: search_case_by_cnr_try_def)

subsection \<open>The cause list\<close>

text \<open>
  Claim C9: whatever the court code and the date (absent or any value),
  \<open>get_cause_list\<close> returns the same fixed list of five entries, whose serial numbers
  are \<open>"1"\<close> to \<open>"5"\<close> in this order.
\<close>

theorem get_cause_list_fixed:
  "get_cause_list now court_code date = cause_list_placeholder
   \<and> length (get_cause_list now court_code date) = 5
   \<and> map (\<lambda>e. map_of e ''serial_number'') (get_cause_list now court_code date)
       = [Some (PStr ''1''), Some (PStr ''2''), Some (PStr ''3''), Some (PStr ''4''),
          Some (PStr ''5'')]"
  by (simp add: get_cause_list_def get_cause_list_try_def try_except_def
      cause_list_placeholder_def Let_def)

subsection \<open>The path of the downloaded PDF\<close>

lemma re_sub_unsafe_safe: "list_all safe_char (re_sub_unsafe s)"
  by (induction s rule: re_sub_unsafe.induct) (auto simp: safe_char_def)

lemma safe_char_not_slash: "safe_char c \<Longrightarrow> c \<noteq> CHR ''/''"
  by (auto simp: safe_char_def)

lemma re_sub_unsafe_no_slash: "CHR ''/'' \<notin> set (re_sub_unsafe s)"
  using re_sub_unsafe_safe [of s] safe_char_not_slash by (auto simp: list_all_iff)

lemma download_case_pdf_path:
  "fst (download_case_pdf fs case_id output_dir) \<noteq> [] \<Longrightarrow>
   fst (download_case_pdf fs case_id output_dir)
     = path_join output_dir (''case_'' @ re_sub_unsafe case_id @ ''.pdf'')"
  by (auto simp: download_case_pdf_def download_case_pdf_try_def try_except_def Let_def
      split: sum.splits prod.splits option.splits)

lemma ancestors_output: "ancestors ''output'' = [''output'']"
  by (simp add: ancestors_def rstrip_slash_def upt_rec)

lemma download_case_pdf_example:
  "fst (download_case_pdf \<lparr>dirs = [], files = [], unwritable = [], space = 1000\<rparr> ''12345/2023'' ''output'')
     = ''output/case_12345_2023.pdf''"
  by (simp add: download_case_pdf_def download_case_pdf_try_def try_except_def Let_def
      makedirs_def ancestors_output safe_char_def path_join_def open_w_def write_text_def)

text \<open>
  Claim C10: when \<open>download_case_pdf\<close> returns a non-empty path, the path is
  \<open>output_dir\<close> joined with the file name \<open>case_<s>.pdf\<close>, where \<open>s\<close> holds only
  characters of \<open>[A-Za-z0-9_-]\<close>; the file name has no slash, so the path is
  \<open>output_dir\<close> followed by that one component and never leaves \<open>output_dir\<close>,
  whatever \<open>case_id\<close> contains.
\<close>

theorem download_path_confined:
  "fst (download_case_pdf fs case_id output_dir) \<noteq> [] \<Longrightarrow>
   fst (download_case_pdf fs case_id output_dir)
       = path_join output_dir (''case_'' @ re_sub_unsafe case_id @ ''.pdf'')
   \<and> list_all safe_char (re_sub_unsafe case_id)
   \<and> CHR ''/'' \<notin> set (''case_'' @ re_sub_unsafe case_id @ ''.pdf'')
   \<and> (path_join output_dir (''case_'' @ re_sub_unsafe case_id @ ''.pdf'')
         = output_dir @ ''case_'' @ re_sub_unsafe case_id @ ''.pdf''
       \<or> path_join output_dir (''case_'' @ re_sub_unsafe case_id @ ''.pdf'')
         = output_dir @ ''/'' @ ''case_'' @ re_sub_unsafe case_id @ ''.pdf'')"
  using download_case_pdf_path [of fs case_id output_dir] re_sub_unsafe_safe [of case_id]
    re_sub_unsafe_no_slash [of case_id]
  by (simp add: path_join_def)

theorem download_path_confined_witness:
  "fst (download_case_pdf \<lparr>dirs = [], files = [], unwritable = [], space = 1000\<rparr> ''12345/2023'' ''output'')
     = ''output/case_12345_2023.pdf''
   \<and> re_sub_unsafe ''12345/2023'' = ''12345_2023''
   \<and> list_all safe_char ''12345_2023''"
  using download_path_confined
    [of "\<lparr>dirs = [], files = [], unwritable = [], space = 1000\<rparr>" "''12345/2023''" "''output''"]
  by (simp add: download_case_pdf_example safe_char_def)

subsection \<open>Failing writes\<close>















subsection \<open>The envelopes of the web endpoints\<close>

lemma get_cause_list_placeholder:
  "get_cause_list today court_code date = cause_list_placeholder"
  by (simp add: get_cause_list_def get_cause_list_try_def try_except_def Let_def)

lemma cause_list_placeholder_nonempty: "cause_list_placeholder \<noteq> []"
  by (simp add: cause_list_placeholder_def)

lemma web_search_case_shapes:
  "(\<exists>d. web_search_case py_str body = ([(''success'', PBool True), (''data'', PDict d)], 200))
   \<or> web_search_case py_str body
       = ([(''success'', PBool False), (''message'', PStr ''Case not found'')], 200)
   \<or> (\<exists>m. web_search_case py_str body = ([(''error'', PStr m)], 400))
   \<or> (\<exists>m. web_search_case py_str body = ([(''error'', PStr m)], 500))"
  by (auto simp: web_search_case_def web_search_case_try_def try_except_def
      error_response_def Let_def split: sum.splits pyval.splits)

lemma web_get_cause_list_shapes:
  "(\<exists>fn. fst (web_get_cause_list py_str fs today stamp body)
        = ([(''success'', PBool True), (''data'', PList (map PDict cause_list_placeholder)),
            (''filename'', PStr fn)], 200))
   \<or> (\<exists>m. fst (web_get_cause_list py_str fs today stamp body) = ([(''error'', PStr m)], 500))"
  by (auto simp: web_get_cause_list_def web_get_cause_list_try_def try_except_def
      error_response_def Let_def get_cause_list_placeholder cause_list_placeholder_nonempty
      split: sum.splits pyval.splits prod.splits)

text \<open>
  Claim C8, as stated, fails: an invalid search type is answered with status 400 and
  the body \<open>{"error": ...}\<close>, and an internal error (here a JSON body \<open>null\<close>, for which
  \<open>data.get\<close> raises) with status 500 and such a body, on both endpoints; these bodies
  have no \<open>success\<close> field and no \<open>message\<close> field.
\<close>

theorem error_envelope_has_no_success:
  "web_search_case (\<lambda>v. []) (Inr (PDict [(''search_type'', PStr ''bogus'')]))
     = ([(''error'', PStr ''Invalid search type'')], 400)
   \<and> web_search_case (\<lambda>v. []) (Inr PNone)
     = ([(''error'', PStr ([CHR 0x27] @ ''NoneType'' @ [CHR 0x27] @ '' object has no attribute ''
            @ [CHR 0x27] @ ''get'' @ [CHR 0x27]))], 500)
   \<and> fst (web_get_cause_list (\<lambda>v. []) \<lparr>dirs = [], files = [], unwritable = [], space = 1000\<rparr>
          ''20/10/2025'' ''20251020_101500'' (Inr PNone))
     = ([(''error'', PStr ([CHR 0x27] @ ''NoneType'' @ [CHR 0x27] @ '' object has no attribute ''
            @ [CHR 0x27] @ ''get'' @ [CHR 0x27]))], 500)"
  by (simp add: web_search_case_def web_search_case_try_def try_except_def error_response_def
      dict_get_def no_get_def web_get_cause_list_def web_get_cause_list_try_def)

lemma web_search_case_raised:
  "web_search_case py_str (Inl e) = ([(''error'', PStr (exn_str e))], 500)"
  by (simp add: web_search_case_def web_search_case_try_def try_except_def error_response_def)

lemma web_search_case_not_dict:
  "(\<forall>d. v \<noteq> PDict d) \<Longrightarrow>
   web_search_case py_str (Inr v) = ([(''error'', PStr (exn_str (no_get v)))], 500)"
  by (cases v)
    (simp_all add: web_search_case_def web_search_case_try_def try_except_def error_response_def)

lemma web_search_case_cnr:
  "dict_get d ''search_type'' = PStr ''cnr'' \<Longrightarrow>
   web_search_case py_str (Inr (PDict d)) =
     (if \<not> truthy (dict_get d ''cnr'') then ([(''error'', PStr ''CNR is required'')], 400)
      else if search_case_by_cnr (dict_get d ''cnr'') \<noteq> []
      then ([(''success'', PBool True), (''data'', PDict (search_case_by_cnr (dict_get d ''cnr'')))], 200)
      else ([(''success'', PBool False), (''message'', PStr ''Case not found'')], 200))"
  by (simp add: web_search_case_def web_search_case_try_def try_except_def error_response_def
      Let_def)

lemma web_search_case_details:
  "dict_get d ''search_type'' = PStr ''details'' \<Longrightarrow>
   web_search_case py_str (Inr (PDict d)) =
     (if \<not> (truthy (dict_get d ''case_type'') \<and> truthy (dict_get d ''case_number'')
             \<and> truthy (dict_get d ''year''))
      then ([(''error'', PStr ''All case details are required'')], 400)
      else ([(''success'', PBool True),
             (''data'', PDict (search_case_by_details py_str (dict_get d ''case_type'')
                                (dict_get d ''case_number'') (dict_get d ''year'')))], 200))"
  by (simp add: web_search_case_def web_search_case_try_def try_except_def error_response_def
      Let_def search_case_by_details_def search_case_by_details_try_def)

lemma web_search_case_other:
  "dict_get d ''search_type'' \<noteq> PStr ''cnr'' \<Longrightarrow>
   dict_get d ''search_type'' \<noteq> PStr ''details'' \<Longrightarrow>
   web_search_case py_str (Inr (PDict d)) = ([(''error'', PStr ''Invalid search type'')], 400)"
  by (simp add: web_search_case_def web_search_case_try_def try_except_def error_response_def
      Let_def)

lemma web_get_cause_list_raised:
  "web_get_cause_list py_str fs today stamp (Inl e)
     = (([(''error'', PStr (exn_str e))], 500), fs)"
  by (simp add: web_get_cause_list_def web_get_cause_list_try_def try_except_def
      error_response_def)

lemma web_get_cause_list_not_dict:
  "(\<forall>d. v \<noteq> PDict d) \<Longrightarrow>
   web_get_cause_list py_str fs today stamp (Inr v)
     = (([(''error'', PStr (exn_str (no_get v)))], 500), fs)"
  by (cases v)
    (simp_all add: web_get_cause_list_def web_get_cause_list_try_def try_except_def
      error_response_def)

lemma web_get_cause_list_dict:
  "web_get_cause_list py_str fs today stamp (Inr (PDict d))
     = (([(''success'', PBool True),
          (''data'', PList (map PDict cause_list_placeholder)),
          (''filename'', PStr (fst (save_cause_list_csv py_str fs stamp cause_list_placeholder None)))],
         200),
        snd (save_cause_list_csv py_str fs stamp cause_list_placeholder None))"
  by (simp add: web_get_cause_list_def web_get_cause_list_try_def try_except_def Let_def
      get_cause_list_placeholder cause_list_placeholder_nonempty split: prod.splits)

text \<open>
  Claim C8, amended. \<open>/search\<close>: when \<open>request.get_json()\<close> raises or gives something
  other than an object, the body is \<open>{error}\<close> with status 500; for an object, search
  type \<open>cnr\<close> gives \<open>{error}\<close> with status 400 when \<open>cnr\<close> is missing or falsy,
  \<open>{success: true, data}\<close> with status 200 when \<open>search_case_by_cnr\<close> returns a
  non-empty record and \<open>{success: false, message}\<close> with status 200 when it returns the
  empty dict; search type \<open>details\<close> gives \<open>{error}\<close> with status 400 when one of the
  three details is missing or falsy and \<open>{success: true, data}\<close> with status 200
  otherwise; any other search type gives \<open>{error}\<close> with status 400. \<open>/causelist\<close>:
  \<open>{error}\<close> with status 500 when \<open>request.get_json()\<close> raises or gives something
  other than an object, and otherwise \<open>{success: true, data, filename}\<close> with status
  200, the data being the fixed cause list and the file name what
  \<open>save_cause_list_csv\<close> returned. So every response has one of these shapes, and the
  \<open>{error}\<close> body has no \<open>success\<close> field.
\<close>

theorem web_envelopes:
  "web_search_case py_str (Inl e) = ([(''error'', PStr (exn_str e))], 500)
   \<and> ((\<forall>d. v \<noteq> PDict d) \<longrightarrow>
        web_search_case py_str (Inr v) = ([(''error'', PStr (exn_str (no_get v)))], 500))
   \<and> (dict_get d ''search_type'' = PStr ''cnr'' \<and> \<not> truthy (dict_get d ''cnr'') \<longrightarrow>
        web_search_case py_str (Inr (PDict d)) = ([(''error'', PStr ''CNR is required'')], 400))
   \<and> (dict_get d ''search_type'' = PStr ''cnr'' \<and> truthy (dict_get d ''cnr'')
        \<and> search_case_by_cnr (dict_get d ''cnr'') \<noteq> [] \<longrightarrow>
        web_search_case py_str (Inr (PDict d))
          = ([(''success'', PBool True),
              (''data'', PDict (search_case_by_cnr (dict_get d ''cnr'')))], 200))
   \<and> (dict_get d ''search_type'' = PStr ''cnr'' \<and> truthy (dict_get d ''cnr'')
        \<and> search_case_by_cnr (dict_get d ''cnr'') = [] \<longrightarrow>
        web_search_case py_str (Inr (PDict d))
          = ([(''success'', PBool False), (''message'', PStr ''Case not found'')], 200))
   \<and> (dict_get d ''search_type'' = PStr ''details''
        \<and> \<not> (truthy (dict_get d ''case_type'') \<and> truthy (dict_get d ''case_number'')
               \<and> truthy (dict_get d ''year'')) \<longrightarrow>
        web_search_case py_str (Inr (PDict d))
          = ([(''error'', PStr ''All case details are required'')], 400))
   \<and> (dict_get d ''search_type'' = PStr ''details''
        \<and> truthy (dict_get d ''case_type'') \<and> truthy (dict_get d ''case_number'')
        \<and> truthy (dict_get d ''year'') \<longrightarrow>
        web_search_case py_str (Inr (PDict d))
          = ([(''success'', PBool True),
              (''data'', PDict (search_case_by_details py_str (dict_get d ''case_type'')
                                 (dict_get d ''case_number'') (dict_get d ''year'')))], 200))
   \<and> (dict_get d ''search_type'' \<noteq> PStr ''cnr'' \<and> dict_get d ''search_type'' \<noteq> PStr ''details'' \<longrightarrow>
        web_search_case py_str (Inr (PDict d)) = ([(''error'', PStr ''Invalid search type'')], 400))
   \<and> web_get_cause_list py_str fs today stamp (Inl e)
        = (([(''error'', PStr (exn_str e))], 500), fs)
   \<and> ((\<forall>d. v \<noteq> PDict d) \<longrightarrow>
        web_get_cause_list py_str fs today stamp (Inr v)
          = (([(''error'', PStr (exn_str (no_get v)))], 500), fs))
   \<and> web_get_cause_list py_str fs today stamp (Inr (PDict d))
        = (([(''success'', PBool True),
             (''data'', PList (map PDict cause_list_placeholder)),
             (''filename'',
              PStr (fst (save_cause_list_csv py_str fs stamp cause_list_placeholder None)))],
            200),
           snd (save_cause_list_csv py_str fs stamp cause_list_placeholder None))
   \<and> ((\<exists>r. web_search_case py_str body = ([(''success'', PBool True), (''data'', PDict r)], 200))
      \<or> web_search_case py_str body
          = ([(''success'', PBool False), (''message'', PStr ''Case not found'')], 200)
      \<or> (\<exists>m. web_search_case py_str body = ([(''error'', PStr m)], 400))
      \<or> (\<exists>m. web_search_case py_str body = ([(''error'', PStr m)], 500)))
   \<and> ((\<exists>fn. fst (web_get_cause_list py_str fs today stamp body)
          = ([(''success'', PBool True), (''data'', PList (map PDict cause_list_placeholder)),
              (''filename'', PStr fn)], 200))
      \<or> (\<exists>m. fst (web_get_cause_list py_str fs today stamp body) = ([(''error'', PStr m)], 500)))"
  using web_search_case_raised [of py_str e]
    web_search_case_not_dict [of v py_str]
    web_search_case_cnr [of d py_str]
    web_search_case_details [of d py_str]
    web_search_case_other [of d py_str]
    web_get_cause_list_raised [of py_str fs today stamp e]
    web_get_cause_list_not_dict [of v py_str fs today stamp]
    web_get_cause_list_dict [of py_str fs today stamp d]
    web_search_case_shapes [of py_str body]
    web_get_cause_list_shapes [of py_str fs today stamp body]
  by simp

theorem web_envelopes_witness:
  "web_search_case (\<lambda>v. [])
       (Inr (PDict [(''search_type'', PStr ''cnr''), (''cnr'', PStr ''DLCT01-123456-2023'')]))
     = ([(''success'', PBool True),
         (''data'', PDict (search_case_by_cnr (PStr ''DLCT01-123456-2023'')))], 200)
   \<and> search_case_by_cnr (PStr ''DLCT01-123456-2023'') \<noteq> []
   \<and> web_search_case (\<lambda>v. [])
       (Inr (PDict [(''search_type'', PStr ''cnr''), (''cnr'', PStr ''TEST123'')]))
     = ([(''success'', PBool False), (''message'', PStr ''Case not found'')], 200)
   \<and> web_search_case (\<lambda>v. []) (Inr (PDict [(''search_type'', PStr ''cnr'')]))
     = ([(''error'', PStr ''CNR is required'')], 400)
   \<and> web_search_case (\<lambda>v. []) (Inr (PDict [(''search_type'', PStr ''details''), (''year'', PStr ''2023'')]))
     = ([(''error'', PStr ''All case details are required'')], 400)
   \<and> web_search_case (\<lambda>v. []) (Inr (PDict []))
     = ([(''error'', PStr ''Invalid search type'')], 400)
   \<and> web_search_case (\<lambda>v. []) (Inr (PList []))
     = ([(''error'', PStr (exn_str (no_get (PList []))))], 500)"
proof -
  have found: "search_case_by_cnr (PStr ''DLCT01-123456-2023'') \<noteq> []"
    by (simp add: search_case_by_cnr_str demo_cases_def)
  have missing: "search_case_by_cnr (PStr ''TEST123'') = []"
    by (simp add: search_case_by_cnr_str demo_cases_def)
  have a: "web_search_case (\<lambda>v. [])
       (Inr (PDict [(''search_type'', PStr ''cnr''), (''cnr'', PStr ''DLCT01-123456-2023'')]))
     = ([(''success'', PBool True),
         (''data'', PDict (search_case_by_cnr (PStr ''DLCT01-123456-2023'')))], 200)"
    using web_envelopes
      [of "\<lambda>v. []" _ _ "[(''search_type'', PStr ''cnr''), (''cnr'', PStr ''DLCT01-123456-2023'')]"]
      found
    by (simp add: dict_get_def)
  have b: "web_search_case (\<lambda>v. [])
       (Inr (PDict [(''search_type'', PStr ''cnr''), (''cnr'', PStr ''TEST123'')]))
     = ([(''success'', PBool False), (''message'', PStr ''Case not found'')], 200)"
    using web_envelopes
      [of "\<lambda>v. []" _ _ "[(''search_type'', PStr ''cnr''), (''cnr'', PStr ''TEST123'')]"]
      missing
    by (simp add: dict_get_def)
  have c: "web_search_case (\<lambda>v. []) (Inr (PDict [(''search_type'', PStr ''cnr'')]))
     = ([(''error'', PStr ''CNR is required'')], 400)"
    using web_envelopes [of "\<lambda>v. []" _ _ "[(''search_type'', PStr ''cnr'')]"]
    by (simp add: dict_get_def)
  have d: "web_search_case (\<lambda>v. [])
       (Inr (PDict [(''search_type'', PStr ''details''), (''year'', PStr ''2023'')]))
     = ([(''error'', PStr ''All case details are required'')], 400)"
    using web_envelopes
      [of "\<lambda>v. []" _ _ "[(''search_type'', PStr ''details''), (''year'', PStr ''2023'')]"]
    by (simp add: dict_get_def)
  have e: "web_search_case (\<lambda>v. []) (Inr (PDict []))
     = ([(''error'', PStr ''Invalid search type'')], 400)"
    using web_envelopes [of "\<lambda>v. []" _ _ "[]"] by (simp add: dict_get_def)
  have f: "web_search_case (\<lambda>v. []) (Inr (PList []))
     = ([(''error'', PStr (exn_str (no_get (PList []))))], 500)"
    using web_envelopes [of "\<lambda>v. []" _ "PList []"] by simp
  from found a b c d e f show ?thesis by blast
qed

subsection \<open>Reading back what the csv writer wrote\<close>















end
